theory Spec2Isabelle
  imports Complex_Main "HOL-Library.AList"
begin

section \<open>Weather dashboard: fetch-then-archive pipeline\<close>

text \<open>
  A shallow embedding of \<^verbatim>\<open>src/weather_dashboard.py\<close>: the class
  \<^verbatim>\<open>WeatherDashboard\<close> with its three methods and the function \<^verbatim>\<open>main\<close>.

  The program talks to three outside parties: the process environment and clock, the
  weather provider (through \<^verbatim>\<open>requests\<close>) and the object store (through
  \<^verbatim>\<open>boto3\<close>). Their answers are not decided by the program, so they are fields of a
  record \<open>world\<close>; every answer may depend on the calls made so far. The calls the
  program makes are collected, in order, in a trace of events that every operation
  takes and returns extended. Lines written to standard output are not part of the
  trace; a \<^verbatim>\<open>print\<close> matters to the model only where it can raise.
\<close>

subsection \<open>Python values\<close>

text \<open>
  What \<^verbatim>\<open>response.json()\<close> can return: \<^verbatim>\<open>None\<close>, a bool, an int, a float, a
  string, a list or a dict with string keys. A dict keeps its keys in insertion order
  and is an association list here; lookup is \<open>map_of\<close>, and a dict has no key twice.
  Python's \<^verbatim>\<open>None\<close> is \<open>JNull\<close>, also where a method of the class returns
  \<^verbatim>\<open>None\<close>. A float is the rational it stands for; the three floats that stand for
  none (the infinities and NaN, all of them true in an \<^verbatim>\<open>if\<close>) are left out.
\<close>

datatype json =
    JNull
  | JBool bool
  | JInt int
  | JFloat rat
  | JStr string
  | JArr "json list"
  | JObj "(string \<times> json) list"

text \<open>The truth value Python gives a value in \<^verbatim>\<open>if x:\<close> and \<^verbatim>\<open>not x\<close>.\<close>

fun truthy :: "json \<Rightarrow> bool" where
  "truthy JNull = False"
| "truthy (JBool b) = b"
| "truthy (JInt n) = (n \<noteq> 0)"
| "truthy (JFloat q) = (q \<noteq> 0)"
| "truthy (JStr s) = (s \<noteq> [])"
| "truthy (JArr xs) = (xs \<noteq> [])"
| "truthy (JObj kvs) = (kvs \<noteq> [])"

text \<open>
  The exceptions the model names: those of subscripts and assignments, and those that
  the libraries and the standard output can raise into \<^verbatim>\<open>main\<close>.
\<close>

datatype py_error =
    KeyError | TypeError | IndexError | ValueError
  | RecursionError | UnicodeEncodeError | InvalidRegionError

text \<open>\<^verbatim>\<open>x[k]\<close> for a string key \<open>k\<close>: only a dict accepts it.\<close>

fun getitem :: "json \<Rightarrow> string \<Rightarrow> py_error + json" where
  "getitem (JObj kvs) k = (case map_of kvs k of None \<Rightarrow> Inl KeyError | Some v \<Rightarrow> Inr v)"
| "getitem _ k = Inl TypeError"

text \<open>
  \<^verbatim>\<open>x[0]\<close>: the first element of a list or of a string; a dict parsed from JSON
  has string keys only, so the key \<open>0\<close> is missing.
\<close>

fun getitem0 :: "json \<Rightarrow> py_error + json" where
  "getitem0 (JArr xs) = (case xs of [] \<Rightarrow> Inl IndexError | x # _ \<Rightarrow> Inr x)"
| "getitem0 (JStr s) = (case s of [] \<Rightarrow> Inl IndexError | c # _ \<Rightarrow> Inr (JStr [c]))"
| "getitem0 (JObj kvs) = Inl KeyError"
| "getitem0 _ = Inl TypeError"

text \<open>
  \<^verbatim>\<open>x[k] = v\<close> for a string key \<open>k\<close>: a dict replaces the value of an existing key
  in its place and appends a new key; every other value raises \<^verbatim>\<open>TypeError\<close>.
\<close>

fun setitem :: "json \<Rightarrow> string \<Rightarrow> json \<Rightarrow> py_error + json" where
  "setitem (JObj kvs) k v = Inr (JObj (AList.update k v kvs))"
| "setitem _ k v = Inl TypeError"

text \<open>Sequencing of steps that may raise: the first error ends the sequence.\<close>

fun and_then :: "'e + 'a \<Rightarrow> ('a \<Rightarrow> 'e + 'c) \<Rightarrow> 'e + 'c" where
  "and_then (Inl e) f = Inl e"
| "and_then (Inr x) f = f x"

subsection \<open>Clock and timestamp\<close>

text \<open>
  A \<^verbatim>\<open>datetime\<close> as \<^verbatim>\<open>datetime.now()\<close> returns it, cut to the fields the format
  reads. Python keeps \<open>1 \<le> year \<le> 9999\<close>, \<open>1 \<le> month \<le> 12\<close>, \<open>1 \<le> day \<le> 31\<close>,
  \<open>hour < 24\<close>, \<open>minute < 60\<close>, \<open>second < 60\<close>.
\<close>

record datetime =
  year :: nat
  month :: nat
  day :: nat
  hour :: nat
  minute :: nat
  second :: nat


definition digit :: "nat \<Rightarrow> char" where
  "digit n = ''0123456789'' ! (n mod 10)"

definition pad2 :: "nat \<Rightarrow> string" where
  "pad2 n = [digit (n div 10), digit n]"

text \<open>The decimal digits of a number, with no leading zero.\<close>

fun decimal :: "nat \<Rightarrow> string" where
  "decimal n = (if n < 10 then [digit n] else decimal (n div 10) @ [digit n])"

declare decimal.simps [simp del]

text \<open>
  \<^verbatim>\<open>strftime('%Y%m%d-%H%M%S')\<close>: every field but the year is zero-padded to two
  digits. The year is written by the C library, which on Linux does not pad it: from the
  year 1000 on it has four digits, before that fewer.
\<close>

definition strftime :: "datetime \<Rightarrow> string" where
  "strftime dt =
     decimal (year dt) @ pad2 (month dt) @ pad2 (day dt) @ ''-'' @
     pad2 (hour dt) @ pad2 (minute dt) @ pad2 (second dt)"

subsection \<open>The outside world\<close>

text \<open>
  The calls that leave the process. \<open>'b\<close> is the type of a serialised document (the
  text \<^verbatim>\<open>json.dumps\<close> returns and the store keeps).
\<close>

datatype 'b event =
    HeadBucket string
  | CreateBucket string "string option"
  | HttpGet string "(string \<times> string) list"
  | PutObject "string option" string 'b string

text \<open>
  \<open>HeadBucket Bucket\<close>; \<open>CreateBucket Bucket LocationConstraint\<close>, with \<open>None\<close> when
  the call carries no \<^verbatim>\<open>CreateBucketConfiguration\<close>; \<open>HttpGet url params\<close>;
  \<open>PutObject Bucket Key Body ContentType\<close>.

  \<^verbatim>\<open>requests.get\<close>, \<^verbatim>\<open>raise_for_status\<close> and \<^verbatim>\<open>response.json\<close> together
  raise a \<^verbatim>\<open>RequestException\<close> (transport error, non-success status, body that is not
  JSON), or raise an exception that is no \<^verbatim>\<open>RequestException\<close> (the parser's
  \<^verbatim>\<open>ValueError\<close> on an integer of too many digits, its \<^verbatim>\<open>RecursionError\<close> on deep
  nesting), or return the parsed body.
\<close>

datatype http_outcome = RequestException | OtherException py_error | Json json

text \<open>
  The answers of the world. \<open>boto3_client\<close> is asked with the region name and
  \<open>print_fields\<close> with the four values the loop displays (lines 114 to 117); both are
  \<open>None\<close> when the call returns and \<open>Some e\<close> when it raises \<open>e\<close>. Each of the others
  takes the trace of the calls made before it. \<open>head_bucket\<close> and \<open>put_object\<close> are
  \<open>True\<close> when the call returns and \<open>False\<close> when it raises. The outcome of
  \<^verbatim>\<open>create_bucket\<close> is not a field: the program only prints it.

  The four lines of \<open>print_fields\<close> are the only output the model lets fail: they
  write text of the provider's, which the standard output may be unable to encode, and
  the degree sign. Every other line is text of the program, of the configuration
  (printed once already when the module is loaded, lines 13 to 15) and of the libraries'
  messages, and the standard output is taken to stay open and to accept it.
\<close>

record 'b world =
  getenv :: "string \<Rightarrow> string option"
  boto3_client :: "string \<Rightarrow> py_error option"
  now :: "'b event list \<Rightarrow> datetime"
  head_bucket :: "'b event list \<Rightarrow> string \<Rightarrow> bool"
  requests_get :: "'b event list \<Rightarrow> string \<Rightarrow> (string \<times> string) list \<Rightarrow> http_outcome"
  print_fields :: "'b event list \<Rightarrow> json \<times> json \<times> json \<times> json \<Rightarrow> py_error option"
  json_dumps :: "json \<Rightarrow> py_error + 'b"
  put_object :: "'b event list \<Rightarrow> string option \<Rightarrow> string \<Rightarrow> 'b \<Rightarrow> string \<Rightarrow> bool"

subsection \<open>The class WeatherDashboard\<close>

record dashboard =
  api_key :: "string option"
  bucket_name :: "string option"
  aws_region :: string

text \<open>
  \<^verbatim>\<open>__init__\<close>, lines 20 to 22: the three settings are read from the environment
  once.
\<close>

definition settings :: "'b world \<Rightarrow> dashboard" where
  "settings w =
     \<lparr> api_key = getenv w ''OPEN_WEATHER_API_KEY'',
       bucket_name = getenv w ''AWS_BUCKET_NAME'',
       aws_region = (case getenv w ''AWS_REGION'' of None \<Rightarrow> ''eu-west-2'' | Some r \<Rightarrow> r) \<rparr>"

text \<open>
  \<^verbatim>\<open>__init__\<close> as a whole: after the settings, line 25 creates the client of the
  store for the region. It calls nothing outside the process, but it raises when the
  library refuses the region name (the empty one, for instance), and nothing catches
  that.
\<close>

definition init :: "'b world \<Rightarrow> py_error + dashboard" where
  "init w =
     (case boto3_client w (aws_region (settings w)) of
        Some e \<Rightarrow> Inl e
      | None \<Rightarrow> Inr (settings w))"

text \<open>
  \<^verbatim>\<open>create_bucket_if_not_exists\<close>: nothing without a bucket name; otherwise the
  existence probe, and when the probe raises (for whatever reason) one creation call,
  whose shape depends on the region.
\<close>

definition create_bucket_if_not_exists ::
  "'b world \<Rightarrow> dashboard \<Rightarrow> 'b event list \<Rightarrow> 'b event list" where
  "create_bucket_if_not_exists w d tr =
     (case bucket_name d of
        None \<Rightarrow> tr
      | Some b \<Rightarrow>
          if b = [] then tr
          else if head_bucket w tr b then tr @ [HeadBucket b]
          else if aws_region d \<noteq> ''us-east-1''
            then tr @ [HeadBucket b, CreateBucket b (Some (aws_region d))]
            else tr @ [HeadBucket b, CreateBucket b None])"

definition base_url :: string where
  "base_url = ''http://api.openweathermap.org/data/2.5/weather''"

text \<open>
  \<^verbatim>\<open>fetch_weather\<close>: \<^verbatim>\<open>None\<close> without an API key, before any request; otherwise
  one request, whose parsed body is returned, or \<^verbatim>\<open>None\<close> when it raises a
  \<^verbatim>\<open>RequestException\<close>. Any other exception of the request is not caught (line 71
  names the class) and leaves the method: the result is then \<open>Inl\<close>.
\<close>

definition fetch_weather ::
  "'b world \<Rightarrow> dashboard \<Rightarrow> string \<Rightarrow> 'b event list \<Rightarrow> (py_error + json) \<times> 'b event list" where
  "fetch_weather w d city tr =
     (case api_key d of
        None \<Rightarrow> (Inr JNull, tr)
      | Some k \<Rightarrow>
          if k = [] then (Inr JNull, tr)
          else
            let params = [(''q'', city), (''appid'', k), (''units'', ''imperial'')] in
            (case requests_get w tr base_url params of
               Json body \<Rightarrow> (Inr body, tr @ [HttpGet base_url params])
             | RequestException \<Rightarrow> (Inr JNull, tr @ [HttpGet base_url params])
             | OtherException e \<Rightarrow> (Inl e, tr @ [HttpGet base_url params])))"

definition file_name :: "string \<Rightarrow> string \<Rightarrow> string" where
  "file_name city timestamp = ''weather-data/'' @ city @ ''-'' @ timestamp @ ''.json''"

text \<open>
  \<^verbatim>\<open>save_to_s3\<close> returns its result, the payload as the caller sees it afterwards
  (the method assigns into the caller's dict) and the trace. Inside the \<^verbatim>\<open>try\<close>:
  the assignment of the timestamp, the serialisation, the put; an exception at any of
  the three gives \<open>False\<close> and leaves what was done before it.
\<close>

definition save_to_s3 ::
  "'b world \<Rightarrow> dashboard \<Rightarrow> json \<Rightarrow> string \<Rightarrow> 'b event list \<Rightarrow> bool \<times> json \<times> 'b event list" where
  "save_to_s3 w d weather_data city tr =
     (if \<not> truthy weather_data then (False, weather_data, tr)
      else
        let timestamp = strftime (now w tr);
            key = file_name city timestamp
        in (case setitem weather_data ''timestamp'' (JStr timestamp) of
              Inl e \<Rightarrow> (False, weather_data, tr)
            | Inr weather_data' \<Rightarrow>
                (case json_dumps w weather_data' of
                   Inl e \<Rightarrow> (False, weather_data', tr)
                 | Inr body \<Rightarrow>
                     (put_object w tr (bucket_name d) key body ''application/json'',
                      weather_data',
                      tr @ [PutObject (bucket_name d) key body ''application/json'']))))"

subsection \<open>The function main\<close>

text \<open>
  The four subscripts of the loop body (lines 109 to 112), in their order; the first
  that raises ends them.
\<close>

definition extract_fields :: "json \<Rightarrow> py_error + (json \<times> json \<times> json \<times> json)" where
  "extract_fields weather_data =
     and_then (and_then (getitem weather_data ''main'') (\<lambda>m. getitem m ''temp'')) (\<lambda>temp.
     and_then (and_then (getitem weather_data ''main'') (\<lambda>m. getitem m ''feels_like'')) (\<lambda>feels_like.
     and_then (and_then (getitem weather_data ''main'') (\<lambda>m. getitem m ''humidity'')) (\<lambda>humidity.
     and_then (and_then (and_then (getitem weather_data ''weather'') getitem0)
                 (\<lambda>first. getitem first ''description'')) (\<lambda>description.
     Inr (temp, feels_like, humidity, description)))))"

text \<open>
  What the loop tells the operator about one city whose fetch returned: the payload,
  and the result of \<^verbatim>\<open>save_to_s3\<close> when it was called (\<open>None\<close> when it was not).
\<close>

record city_report =
  rep_city :: string
  rep_fetched :: json
  rep_archived :: "bool option"

text \<open>
  The loop of \<^verbatim>\<open>main\<close>. The first component of the result is \<open>None\<close> when the
  loop runs to its end and \<open>Some e\<close> when an exception leaves it: nothing in
  \<^verbatim>\<open>main\<close> catches one, so it ends the process. An exception can come out of
  \<^verbatim>\<open>fetch_weather\<close>, out of the four subscripts, and out of the four prints of the
  displayed fields.
\<close>

fun main_loop ::
  "'b world \<Rightarrow> dashboard \<Rightarrow> string list \<Rightarrow> 'b event list \<Rightarrow>
     py_error option \<times> city_report list \<times> 'b event list" where
  "main_loop w d [] tr = (None, [], tr)"
| "main_loop w d (city # rest) tr =
     (case fetch_weather w d city tr of
        (Inl e, tr1) \<Rightarrow> (Some e, [], tr1)
      | (Inr weather_data, tr1) \<Rightarrow>
          if truthy weather_data then
            (case extract_fields weather_data of
               Inl e \<Rightarrow>
                 (Some e,
                  [\<lparr>rep_city = city, rep_fetched = weather_data, rep_archived = None\<rparr>],
                  tr1)
             | Inr shown \<Rightarrow>
                 (case print_fields w tr1 shown of
                    Some e \<Rightarrow>
                      (Some e,
                       [\<lparr>rep_city = city, rep_fetched = weather_data, rep_archived = None\<rparr>],
                       tr1)
                  | None \<Rightarrow>
                      (case save_to_s3 w d weather_data city tr1 of
                         (success, weather_data', tr2) \<Rightarrow>
                           (case main_loop w d rest tr2 of
                              (out, reps, tr3) \<Rightarrow>
                                (out,
                                 \<lparr>rep_city = city, rep_fetched = weather_data,
                                   rep_archived = Some success\<rparr> # reps,
                                 tr3)))))
          else
            (case main_loop w d rest tr1 of
               (out, reps, tr3) \<Rightarrow>
                 (out,
                  \<lparr>rep_city = city, rep_fetched = weather_data, rep_archived = None\<rparr> # reps,
                  tr3)))"

definition cities :: "string list" where
  "cities = [''Philadelphia'', ''Seattle'', ''New York'']"

text \<open>
  \<^verbatim>\<open>main\<close> with the list of cities as a parameter, and \<^verbatim>\<open>main\<close> itself on the
  list the source fixes. When the constructor raises, \<^verbatim>\<open>main\<close> ends before any call.
\<close>

definition main_on :: "'b world \<Rightarrow> string list \<Rightarrow> py_error option \<times> city_report list \<times> 'b event list" where
  "main_on w cs =
     (case init w of
        Inl e \<Rightarrow> (Some e, [], [])
      | Inr dashboard \<Rightarrow>
          main_loop w dashboard cs (create_bucket_if_not_exists w dashboard []))"


section \<open>Observations and sample runs\<close>

subsection \<open>Reading a trace\<close>

definition is_head_bucket :: "'b event \<Rightarrow> bool" where
  "is_head_bucket e = (case e of HeadBucket b \<Rightarrow> True | _ \<Rightarrow> False)"

definition is_create_bucket :: "'b event \<Rightarrow> bool" where
  "is_create_bucket e = (case e of CreateBucket b lc \<Rightarrow> True | _ \<Rightarrow> False)"





subsection \<open>Sample worlds\<close>

text \<open>
  The payload of the end-to-end scenario, and the same payload after the archive has
  stamped it at 2024-03-01 09:05:07.
\<close>

definition clear_sky :: json where
  "clear_sky =
     JObj [(''main'', JObj [(''temp'', JFloat (145 / 2)), (''feels_like'', JFloat (701 / 10)),
                            (''humidity'', JInt 40)]),
           (''weather'', JArr [JObj [(''description'', JStr ''clear sky'')]])]"

definition clear_sky_stamped :: json where
  "clear_sky_stamped =
     JObj [(''main'', JObj [(''temp'', JFloat (145 / 2)), (''feels_like'', JFloat (701 / 10)),
                            (''humidity'', JInt 40)]),
           (''weather'', JArr [JObj [(''description'', JStr ''clear sky'')]]),
           (''timestamp'', JStr ''20240301-090507'')]"

definition march_first :: datetime where
  "march_first = \<lparr>year = 2024, month = 3, day = 1, hour = 9, minute = 5, second = 7\<rparr>"

text \<open>
  A world with a complete configuration and no bucket yet, in which the request for
  Philadelphia fails and the put for New York fails. The library refuses the empty
  region name only, every line is printed, and a serialised document is the document
  itself.
\<close>

definition demo_world :: "json world" where
  "demo_world =
     \<lparr> getenv = map_of [(''OPEN_WEATHER_API_KEY'', ''k''), (''AWS_BUCKET_NAME'', ''b'')],
       boto3_client = (\<lambda>region. if region = [] then Some InvalidRegionError else None),
       now = (\<lambda>tr. march_first),
       head_bucket = (\<lambda>tr b. False),
       requests_get = (\<lambda>tr url params.
          if map_of params ''q'' = Some ''Philadelphia'' then RequestException else Json clear_sky),
       print_fields = (\<lambda>tr shown. None),
       json_dumps = Inr,
       put_object = (\<lambda>tr b key body ct. key \<noteq> ''weather-data/New York-20240301-090507.json'') \<rparr>"






text \<open>What \<^verbatim>\<open>main\<close> reports and calls in \<open>demo_world\<close>.\<close>

definition demo_reports :: "city_report list" where
  "demo_reports =
     [\<lparr>rep_city = ''Philadelphia'', rep_fetched = JNull, rep_archived = None\<rparr>,
      \<lparr>rep_city = ''Seattle'', rep_fetched = clear_sky, rep_archived = Some True\<rparr>,
      \<lparr>rep_city = ''New York'', rep_fetched = clear_sky, rep_archived = Some False\<rparr>]"

definition demo_trace :: "json event list" where
  "demo_trace =
     [HeadBucket ''b'', CreateBucket ''b'' (Some ''eu-west-2''),
      HttpGet base_url [(''q'', ''Philadelphia''), (''appid'', ''k''), (''units'', ''imperial'')],
      HttpGet base_url [(''q'', ''Seattle''), (''appid'', ''k''), (''units'', ''imperial'')],
      PutObject (Some ''b'') ''weather-data/Seattle-20240301-090507.json'' clear_sky_stamped
        ''application/json'',
      HttpGet base_url [(''q'', ''New York''), (''appid'', ''k''), (''units'', ''imperial'')],
      PutObject (Some ''b'') ''weather-data/New York-20240301-090507.json'' clear_sky_stamped
        ''application/json'']"

text \<open>The same world with the region set to the default region of the store.\<close>

definition us_east_world :: "json world" where
  "us_east_world =
     demo_world \<lparr> getenv := map_of [(''OPEN_WEATHER_API_KEY'', ''k''), (''AWS_BUCKET_NAME'', ''b''),
                                    (''AWS_REGION'', ''us-east-1'')] \<rparr>"

text \<open>The same world with an empty API key, and with no variable set at all.\<close>

definition keyless_world :: "json world" where
  "keyless_world =
     demo_world \<lparr> getenv := map_of [(''OPEN_WEATHER_API_KEY'', ''''), (''AWS_BUCKET_NAME'', ''b'')] \<rparr>"

definition unset_world :: "json world" where
  "unset_world = demo_world \<lparr> getenv := (\<lambda>name. None) \<rparr>"

text \<open>A payload that already has a \<open>timestamp\<close> of the provider's.\<close>

definition dated_payload :: json where
  "dated_payload = JObj [(''timestamp'', JStr ''provider''), (''name'', JStr ''Seattle'')]"

section \<open>Properties\<close>

subsection \<open>What one call adds to the trace\<close>

lemma fetch_weather_cases:
  assumes "fetch_weather w d city tr = (res, tr')"
  shows "((api_key d = None \<or> api_key d = Some []) \<and> res = Inr JNull \<and> tr' = tr) \<or>
    (\<exists>k. api_key d = Some k \<and> k \<noteq> [] \<and>
       tr' = tr @ [HttpGet base_url [(''q'', city), (''appid'', k), (''units'', ''imperial'')]] \<and>
       (requests_get w tr base_url [(''q'', city), (''appid'', k), (''units'', ''imperial'')] = RequestException
          \<and> res = Inr JNull \<or>
        (\<exists>e. requests_get w tr base_url [(''q'', city), (''appid'', k), (''units'', ''imperial'')]
               = OtherException e \<and> res = Inl e) \<or>
        (\<exists>body. requests_get w tr base_url [(''q'', city), (''appid'', k), (''units'', ''imperial'')]
               = Json body \<and> res = Inr body)))"
  using assms
  by (auto simp: fetch_weather_def Let_def split: option.splits if_splits http_outcome.splits)

lemma save_to_s3_cases:
  assumes "save_to_s3 w d weather_data city tr = (r, weather_data', tr')"
  shows "(r = False \<and> tr' = tr) \<or>
    (\<exists>kvs body. weather_data = JObj kvs \<and> kvs \<noteq> [] \<and>
       weather_data' = JObj (AList.update ''timestamp'' (JStr (strftime (now w tr))) kvs) \<and>
       json_dumps w weather_data' = Inr body \<and>
       r = put_object w tr (bucket_name d) (file_name city (strftime (now w tr))) body ''application/json'' \<and>
       tr' = tr @ [PutObject (bucket_name d) (file_name city (strftime (now w tr))) body ''application/json''])"
  using assms
  by (cases weather_data) (auto simp: save_to_s3_def Let_def split: if_splits sum.splits)

lemma filter_fetch_weather:
  assumes "\<And>u p. \<not> P (HttpGet u p)"
  shows "filter P (snd (fetch_weather w d city tr)) = filter P tr"
  using assms
  by (auto simp: fetch_weather_def Let_def split: option.splits if_splits http_outcome.splits)

lemma filter_save_to_s3:
  assumes "\<And>b k body ct. \<not> P (PutObject b k body ct)"
  shows "filter P (snd (snd (save_to_s3 w d weather_data city tr))) = filter P tr"
  using assms
  by (cases weather_data) (auto simp: save_to_s3_def Let_def split: if_splits sum.splits)

subsection \<open>The loop\<close>

text \<open>The five ways one turn of the loop can go.\<close>

lemma main_loop_step:
  assumes "main_loop w d (city # rest) tr = (out, reps, tr')"
  obtains
    (raised) e where "fetch_weather w d city tr = (Inl e, tr')" "out = Some e" "reps = []"
  | (failed) weather_data tr1 reps1 where
      "fetch_weather w d city tr = (Inr weather_data, tr1)" "\<not> truthy weather_data"
      "main_loop w d rest tr1 = (out, reps1, tr')"
      "reps = \<lparr>rep_city = city, rep_fetched = weather_data, rep_archived = None\<rparr> # reps1"
  | (malformed) weather_data e where
      "fetch_weather w d city tr = (Inr weather_data, tr')" "truthy weather_data"
      "extract_fields weather_data = Inl e" "out = Some e"
      "reps = [\<lparr>rep_city = city, rep_fetched = weather_data, rep_archived = None\<rparr>]"
  | (unprintable) weather_data shown e where
      "fetch_weather w d city tr = (Inr weather_data, tr')" "truthy weather_data"
      "extract_fields weather_data = Inr shown" "print_fields w tr' shown = Some e" "out = Some e"
      "reps = [\<lparr>rep_city = city, rep_fetched = weather_data, rep_archived = None\<rparr>]"
  | (archived) weather_data tr1 shown success weather_data' tr2 reps1 where
      "fetch_weather w d city tr = (Inr weather_data, tr1)" "truthy weather_data"
      "extract_fields weather_data = Inr shown" "print_fields w tr1 shown = None"
      "save_to_s3 w d weather_data city tr1 = (success, weather_data', tr2)"
      "main_loop w d rest tr2 = (out, reps1, tr')"
      "reps = \<lparr>rep_city = city, rep_fetched = weather_data, rep_archived = Some success\<rparr> # reps1"
proof -
  obtain res tr1 where f: "fetch_weather w d city tr = (res, tr1)"
    by (cases "fetch_weather w d city tr")
  show thesis
  proof (cases res)
    case (Inl e)
    then have "out = Some e" "reps = []" "tr' = tr1"
      using assms f by simp_all
    with f Inl show thesis using raised by blast
  next
    case (Inr weather_data)
    show thesis
    proof (cases "truthy weather_data")
      case False
      obtain out1 reps1 tr3 where m: "main_loop w d rest tr1 = (out1, reps1, tr3)"
        by (cases "main_loop w d rest tr1")
      have "out = out1" "tr' = tr3"
        "reps = \<lparr>rep_city = city, rep_fetched = weather_data, rep_archived = None\<rparr> # reps1"
        using assms f Inr False m by simp_all
      with f Inr False m show thesis using failed by blast
    next
      case True
      show thesis
      proof (cases "extract_fields weather_data")
        case (Inl e)
        then have "out = Some e" "tr' = tr1"
          "reps = [\<lparr>rep_city = city, rep_fetched = weather_data, rep_archived = None\<rparr>]"
          using assms f Inr True by simp_all
        with f Inr True Inl show thesis using malformed by blast
      next
        case shown: (Inr shown)
        show thesis
        proof (cases "print_fields w tr1 shown")
          case (Some e)
          then have "out = Some e" "tr' = tr1"
            "reps = [\<lparr>rep_city = city, rep_fetched = weather_data, rep_archived = None\<rparr>]"
            using assms f Inr True shown by simp_all
          with f Inr True shown Some show thesis using unprintable by blast
        next
          case None
          obtain success weather_data' tr2
            where s: "save_to_s3 w d weather_data city tr1 = (success, weather_data', tr2)"
            by (cases "save_to_s3 w d weather_data city tr1")
          obtain out1 reps1 tr3 where m: "main_loop w d rest tr2 = (out1, reps1, tr3)"
            by (cases "main_loop w d rest tr2")
          have "out = out1" "tr' = tr3"
            "reps = \<lparr>rep_city = city, rep_fetched = weather_data,
                rep_archived = Some success\<rparr> # reps1"
            using assms f Inr True shown None s m by simp_all
          with f Inr True shown None s m show thesis using archived by blast
        qed
      qed
    qed
  qed
qed

text \<open>The loop adds requests and puts to the trace, and nothing else.\<close>

lemma filter_main_loop:
  assumes "\<And>u p. \<not> P (HttpGet u p)" and "\<And>b k body ct. \<not> P (PutObject b k body ct)"
  shows "filter P (snd (snd (main_loop w d cs tr))) = filter P tr"
proof (induction cs arbitrary: tr)
  case Nil
  show ?case by simp
next
  case (Cons city rest)
  obtain out reps tr' where m: "main_loop w d (city # rest) tr = (out, reps, tr')"
    by (cases "main_loop w d (city # rest) tr")
  have f: "filter P tr1 = filter P tr" if "fetch_weather w d city tr = (res, tr1)" for res tr1
    using filter_fetch_weather [of P w d city tr, OF assms(1)] that by simp
  have s: "filter P tr2 = filter P tr1"
    if "save_to_s3 w d weather_data city tr1 = (success, weather_data', tr2)"
    for weather_data tr1 success weather_data' tr2
    using filter_save_to_s3 [of P w d weather_data city tr1, OF assms(2)] that by simp
  have "filter P tr' = filter P tr"
    using m
  proof (cases rule: main_loop_step)
    case (raised e)
    then show ?thesis using f by blast
  next
    case (failed weather_data tr1 reps1)
    then show ?thesis using f [OF failed(1)] Cons.IH [of tr1] by simp
  next
    case (malformed weather_data e)
    then show ?thesis using f by blast
  next
    case (unprintable weather_data shown e)
    then show ?thesis using f by blast
  next
    case (archived weather_data tr1 shown success weather_data' tr2 reps1)
    then show ?thesis
      using f [OF archived(1)] s [OF archived(5)] Cons.IH [of tr2] by simp
  qed
  with m show ?case by simp
qed

text \<open>A report that records an archive call records a payload that is true.\<close>

lemma main_loop_archived_truthy:
  assumes "main_loop w d cs tr = (out, reps, tr')" and "r \<in> set reps"
    and "rep_archived r \<noteq> None"
  shows "truthy (rep_fetched r)"
  using assms
proof (induction cs arbitrary: tr out reps tr')
  case Nil
  then show ?case by simp
next
  case (Cons city rest)
  show ?case
    using Cons.prems(1)
  proof (cases rule: main_loop_step)
    case (raised e)
    then show ?thesis using Cons.prems(2) by simp
  next
    case (failed weather_data tr1 reps1)
    then show ?thesis using Cons.IH [OF failed(3)] Cons.prems(2,3) by auto
  next
    case (malformed weather_data e)
    then show ?thesis using Cons.prems(2,3) by simp
  next
    case (unprintable weather_data shown e)
    then show ?thesis using Cons.prems(2,3) by simp
  next
    case (archived weather_data tr1 shown success weather_data' tr2 reps1)
    then show ?thesis using Cons.IH [OF archived(6)] Cons.prems(2,3) by auto
  qed
qed

text \<open>Every put of the loop belongs to a report that records an archive call.\<close>

lemma main_loop_puts:
  assumes "main_loop w d cs tr = (out, reps, tr')" and "PutObject b key body ct \<in> set tr'"
  shows "PutObject b key body ct \<in> set tr \<or>
    (\<exists>r\<in>set reps. \<exists>ts. key = file_name (rep_city r) ts \<and> truthy (rep_fetched r) \<and>
       rep_archived r \<noteq> None)"
  using assms
proof (induction cs arbitrary: tr out reps tr')
  case Nil
  then show ?case by simp
next
  case (Cons city rest)
  have f: "PutObject b key body ct \<in> set tr1 \<Longrightarrow> PutObject b key body ct \<in> set tr"
    if "fetch_weather w d city tr = (res, tr1)" for res tr1
    using fetch_weather_cases [OF that] by auto
  show ?case
    using Cons.prems(1)
  proof (cases rule: main_loop_step)
    case (raised e)
    then show ?thesis using f Cons.prems(2) by blast
  next
    case (failed weather_data tr1 reps1)
    then show ?thesis
      using Cons.IH [OF failed(3) Cons.prems(2)] f [OF failed(1)] by auto
  next
    case (malformed weather_data e)
    then show ?thesis using f Cons.prems(2) by blast
  next
    case (unprintable weather_data shown e)
    then show ?thesis using f Cons.prems(2) by blast
  next
    case (archived weather_data tr1 shown success weather_data' tr2 reps1)
    have s1: "PutObject b key body ct \<in> set tr2 \<Longrightarrow>
        PutObject b key body ct \<in> set tr1 \<or> (\<exists>ts. key = file_name city ts)"
      using save_to_s3_cases [OF archived(5)] by auto
    show ?thesis
      using Cons.IH [OF archived(6) Cons.prems(2)] s1 f [OF archived(1)] archived(2,7) by auto
  qed
qed




lemma create_bucket_no_put:
  "PutObject b key body ct \<notin> set (create_bucket_if_not_exists w d [])"
  by (simp add: create_bucket_if_not_exists_def split: option.splits)


lemma demo_run: "main_on demo_world cities = (None, demo_reports, demo_trace)"
  by code_simp


subsection \<open>A failed fetch is never archived\<close>

text \<open>
  C1. In a run of \<^verbatim>\<open>main\<close> over any list of cities, a city whose fetch returned the
  failure value \<^verbatim>\<open>None\<close> has no call of \<^verbatim>\<open>save_to_s3\<close>, and every put of the run
  is a put for a city whose fetch did not fail and for which \<^verbatim>\<open>save_to_s3\<close> was
  called: its key is the key of that city.
\<close>

theorem failed_fetch_never_archived:
  assumes "main_on w cs = (out, reps, tr)"
  shows "(\<forall>r\<in>set reps. rep_fetched r = JNull \<longrightarrow> rep_archived r = None) \<and>
    (\<forall>b key body ct. PutObject b key body ct \<in> set tr \<longrightarrow>
       (\<exists>r\<in>set reps. \<exists>ts. key = file_name (rep_city r) ts \<and> rep_fetched r \<noteq> JNull \<and>
          rep_archived r \<noteq> None))"
proof (cases "init w")
  case (Inl e)
  then have "reps = []" "tr = []"
    using assms by (simp_all add: main_on_def)
  then show ?thesis by simp
next
  case (Inr d)
  let ?tr0 = "create_bucket_if_not_exists w d []"
  have m: "main_loop w d cs ?tr0 = (out, reps, tr)"
    using assms Inr by (simp add: main_on_def)
  have "rep_archived r = None" if "r \<in> set reps" "rep_fetched r = JNull" for r
    using main_loop_archived_truthy [OF m that(1)] that(2) by (cases "rep_archived r") auto
  moreover have "\<exists>r\<in>set reps. \<exists>ts. key = file_name (rep_city r) ts \<and> rep_fetched r \<noteq> JNull \<and>
      rep_archived r \<noteq> None"
    if "PutObject b key body ct \<in> set tr" for b key body ct
    using main_loop_puts [OF m that] create_bucket_no_put [of b key body ct w d] by fastforce
  ultimately show ?thesis by blast
qed

theorem failed_fetch_never_archived_witness:
  "main_on demo_world cities = (None, demo_reports, demo_trace) \<and>
   rep_city (hd demo_reports) = ''Philadelphia'' \<and>
   rep_fetched (hd demo_reports) = JNull \<and>
   rep_archived (hd demo_reports) = None \<and>
   (\<exists>r\<in>set demo_reports. \<exists>ts.
      ''weather-data/Seattle-20240301-090507.json'' = file_name (rep_city r) ts \<and>
      rep_fetched r \<noteq> JNull \<and> rep_archived r \<noteq> None)"
proof -
  note run = failed_fetch_never_archived [OF demo_run]
  have h: "hd demo_reports \<in> set demo_reports" "rep_fetched (hd demo_reports) = JNull"
    "rep_city (hd demo_reports) = ''Philadelphia''"
    by (simp_all add: demo_reports_def)
  have p: "PutObject (Some ''b'') ''weather-data/Seattle-20240301-090507.json'' clear_sky_stamped
      ''application/json'' \<in> set demo_trace"
    by (simp add: demo_trace_def)
  from run h have "rep_archived (hd demo_reports) = None" by blast
  moreover from run p have "\<exists>r\<in>set demo_reports. \<exists>ts.
      ''weather-data/Seattle-20240301-090507.json'' = file_name (rep_city r) ts \<and>
      rep_fetched r \<noteq> JNull \<and> rep_archived r \<noteq> None" by blast
  ultimately show ?thesis using demo_run h by blast
qed

subsection \<open>Failures that end the run and failures that do not\<close>




subsection \<open>Provisioning\<close>

text \<open>
  C8. In a run of \<^verbatim>\<open>main\<close> over any list of cities, however long, the trace holds at
  most one existence probe and at most one creation call.
\<close>

theorem provisioning_at_most_once:
  "length (filter is_head_bucket (snd (snd (main_on w cs)))) \<le> 1 \<and>
   length (filter is_create_bucket (snd (snd (main_on w cs)))) \<le> 1"
proof (cases "init w")
  case (Inl e)
  then show ?thesis by (simp add: main_on_def)
next
  case (Inr d)
  let ?tr0 = "create_bucket_if_not_exists w d []"
  have run: "main_on w cs = main_loop w d cs ?tr0"
    using Inr by (simp add: main_on_def)
  have "filter is_head_bucket (snd (snd (main_on w cs))) = filter is_head_bucket ?tr0"
    unfolding run by (rule filter_main_loop) (simp_all add: is_head_bucket_def)
  moreover have "filter is_create_bucket (snd (snd (main_on w cs))) = filter is_create_bucket ?tr0"
    unfolding run by (rule filter_main_loop) (simp_all add: is_create_bucket_def)
  moreover have "length (filter is_head_bucket ?tr0) \<le> 1"
    by (simp add: create_bucket_if_not_exists_def is_head_bucket_def split: option.splits)
  moreover have "length (filter is_create_bucket ?tr0) \<le> 1"
    by (simp add: create_bucket_if_not_exists_def is_create_bucket_def split: option.splits)
  ultimately show ?thesis by simp
qed

lemma create_bucket_cases:
  "create_bucket_if_not_exists w d tr = tr \<or>
   (\<exists>b. bucket_name d = Some b \<and> b \<noteq> [] \<and>
      (create_bucket_if_not_exists w d tr = tr @ [HeadBucket b] \<or>
       \<not> head_bucket w tr b \<and>
       create_bucket_if_not_exists w d tr =
         tr @ [HeadBucket b,
               CreateBucket b (if aws_region d = ''us-east-1'' then None else Some (aws_region d))]))"
proof (cases "bucket_name d")
  case None
  then show ?thesis by (simp add: create_bucket_if_not_exists_def)
next
  case (Some b)
  show ?thesis
  proof (cases "b = []")
    case True
    with Some show ?thesis by (simp add: create_bucket_if_not_exists_def)
  next
    case False
    show ?thesis
    proof (cases "head_bucket w tr b")
      case True
      with Some False show ?thesis by (simp add: create_bucket_if_not_exists_def)
    next
      case h: False
      show ?thesis
      proof (cases "aws_region d = ''us-east-1''")
        case True
        with Some False h show ?thesis
          unfolding create_bucket_if_not_exists_def by simp
      next
        case r: False
        with Some False h show ?thesis
          unfolding create_bucket_if_not_exists_def by simp
      qed
    qed
  qed
qed


text \<open>
  C3. The creation call is shaped by the region. With a bucket name and a failing
  probe, \<^verbatim>\<open>create_bucket_if_not_exists\<close> adds the probe and one creation call, which
  carries no location constraint when the region is \<open>us-east-1\<close> and the configured
  region as its location constraint otherwise; and no creation call it adds, in any
  case, has another shape.
\<close>

theorem create_bucket_location_constraint:
  "(bucket_name d = Some b \<and> b \<noteq> [] \<and> \<not> head_bucket w tr b \<longrightarrow>
      create_bucket_if_not_exists w d tr =
        tr @ [HeadBucket b,
              CreateBucket b (if aws_region d = ''us-east-1'' then None else Some (aws_region d))]) \<and>
   (\<forall>b' lc. CreateBucket b' lc \<in> set (create_bucket_if_not_exists w d tr) \<longrightarrow>
      CreateBucket b' lc \<in> set tr \<or>
      bucket_name d = Some b' \<and>
      lc = (if aws_region d = ''us-east-1'' then None else Some (aws_region d)))"
proof (intro conjI impI allI)
  assume "bucket_name d = Some b \<and> b \<noteq> [] \<and> \<not> head_bucket w tr b"
  then show "create_bucket_if_not_exists w d tr =
        tr @ [HeadBucket b,
              CreateBucket b (if aws_region d = ''us-east-1'' then None else Some (aws_region d))]"
    using create_bucket_cases [of w d tr]
    by (simp add: create_bucket_if_not_exists_def)
next
  fix b' lc
  assume "CreateBucket b' lc \<in> set (create_bucket_if_not_exists w d tr)"
  then show "CreateBucket b' lc \<in> set tr \<or>
      bucket_name d = Some b' \<and>
      lc = (if aws_region d = ''us-east-1'' then None else Some (aws_region d))"
    using create_bucket_cases [of w d tr] by auto
qed


theorem create_bucket_location_constraint_witness:
  "aws_region (settings us_east_world) = ''us-east-1'' \<and>
   create_bucket_if_not_exists us_east_world (settings us_east_world) [] =
     [HeadBucket ''b'', CreateBucket ''b'' None] \<and>
   aws_region (settings demo_world) = ''eu-west-2'' \<and>
   create_bucket_if_not_exists demo_world (settings demo_world) [] =
     [HeadBucket ''b'', CreateBucket ''b'' (Some ''eu-west-2'')]"
proof -
  have u: "bucket_name (settings us_east_world) = Some ''b'' \<and> ''b'' \<noteq> [] \<and>
      \<not> head_bucket us_east_world [] ''b''"
    by (simp add: settings_def us_east_world_def demo_world_def)
  have ur: "aws_region (settings us_east_world) = ''us-east-1''"
    by (simp add: settings_def us_east_world_def demo_world_def)
  have e: "bucket_name (settings demo_world) = Some ''b'' \<and> ''b'' \<noteq> [] \<and>
      \<not> head_bucket demo_world [] ''b''"
    by (simp add: settings_def demo_world_def)
  have er: "aws_region (settings demo_world) = ''eu-west-2''"
    by (simp add: settings_def demo_world_def)
  have "create_bucket_if_not_exists us_east_world (settings us_east_world) [] =
     [] @ [HeadBucket ''b'', CreateBucket ''b''
        (if aws_region (settings us_east_world) = ''us-east-1'' then None
         else Some (aws_region (settings us_east_world)))]"
    using create_bucket_location_constraint [of "settings us_east_world" "''b''" us_east_world "[]"] u
    by blast
  then have 1: "create_bucket_if_not_exists us_east_world (settings us_east_world) [] =
     [HeadBucket ''b'', CreateBucket ''b'' None]"
    unfolding ur by simp
  have "create_bucket_if_not_exists demo_world (settings demo_world) [] =
     [] @ [HeadBucket ''b'', CreateBucket ''b''
        (if aws_region (settings demo_world) = ''us-east-1'' then None
         else Some (aws_region (settings demo_world)))]"
    using create_bucket_location_constraint [of "settings demo_world" "''b''" demo_world "[]"] e
    by blast
  then have 2: "create_bucket_if_not_exists demo_world (settings demo_world) [] =
     [HeadBucket ''b'', CreateBucket ''b'' (Some ''eu-west-2'')]"
    unfolding er by simp
  from ur 1 er 2 show ?thesis by blast
qed

subsection \<open>Fetching\<close>

text \<open>
  C6. When the configured API key is absent or empty, \<^verbatim>\<open>fetch_weather\<close> returns
  (it does not raise), its value is the failure value \<^verbatim>\<open>None\<close> for every city, and
  it makes no call at all: the trace is returned as it was given.
\<close>

theorem fetch_weather_no_key:
  assumes "api_key d = None \<or> api_key d = Some ''''"
  shows "fetch_weather w d city tr = (Inr JNull, tr)"
  using assms by (auto simp: fetch_weather_def)

theorem fetch_weather_no_key_witness:
  "api_key (settings unset_world) = None \<and>
   fetch_weather unset_world (settings unset_world) ''Seattle'' [] = (Inr JNull, []) \<and>
   api_key (settings keyless_world) = Some '''' \<and>
   fetch_weather keyless_world (settings keyless_world) ''Seattle'' [] = (Inr JNull, [])"
proof -
  have u: "api_key (settings unset_world) = None"
    by (simp add: settings_def unset_world_def)
  have k: "api_key (settings keyless_world) = Some ''''"
    by (simp add: settings_def keyless_world_def)
  show ?thesis
    using fetch_weather_no_key [of "settings unset_world" unset_world "''Seattle''" "[]"]
      fetch_weather_no_key [of "settings keyless_world" keyless_world "''Seattle''" "[]"] u k
    by simp
qed



subsection \<open>Archiving\<close>

text \<open>
  C7. When the payload is \<^verbatim>\<open>None\<close>, the empty dict or any other value that is false,
  \<^verbatim>\<open>save_to_s3\<close> returns \<open>False\<close> at once: the trace is returned as it was given (no
  put, no other call) and the payload is returned as it was given.
\<close>

theorem save_to_s3_empty_payload:
  assumes "weather_data = JNull \<or> weather_data = JObj [] \<or> \<not> truthy weather_data"
  shows "save_to_s3 w d weather_data city tr = (False, weather_data, tr)"
  using assms by (auto simp: save_to_s3_def)

theorem save_to_s3_empty_payload_witness:
  "save_to_s3 demo_world (settings demo_world) JNull ''Seattle'' [] = (False, JNull, []) \<and>
   save_to_s3 demo_world (settings demo_world) (JObj []) ''Seattle'' [] = (False, JObj [], [])"
  using save_to_s3_empty_payload [of JNull demo_world "settings demo_world" "''Seattle''" "[]"]
    save_to_s3_empty_payload [of "JObj []" demo_world "settings demo_world" "''Seattle''" "[]"]
  by simp

subsection \<open>The key and the stored document\<close>












lemma strftime_march_first: "strftime march_first = ''20240301-090507''"
  by code_simp



lemma demo_save:
  "save_to_s3 demo_world (settings demo_world) clear_sky ''Seattle'' [] =
     (True, clear_sky_stamped,
      [] @ [PutObject (Some ''b'') ''weather-data/Seattle-20240301-090507.json'' clear_sky_stamped
              ''application/json''])"
  by code_simp

lemma demo_now: "now demo_world tr = march_first"
  by (simp add: demo_world_def)





text \<open>
  C4, as the claim states it, fails for a payload that already has a \<open>timestamp\<close>:
  the document stored for it holds the capture timestamp under that key, not the value
  the provider sent.
\<close>

theorem timestamp_field_overwritten:
  "save_to_s3 demo_world (settings demo_world) dated_payload ''Seattle'' [] =
     (True,
      JObj [(''timestamp'', JStr ''20240301-090507''), (''name'', JStr ''Seattle'')],
      [PutObject (Some ''b'') ''weather-data/Seattle-20240301-090507.json''
         (JObj [(''timestamp'', JStr ''20240301-090507''), (''name'', JStr ''Seattle'')])
         ''application/json'']) \<and>
   getitem dated_payload ''timestamp'' = Inr (JStr ''provider'') \<and>
   getitem (JObj [(''timestamp'', JStr ''20240301-090507''), (''name'', JStr ''Seattle'')])
     ''timestamp'' \<noteq> getitem dated_payload ''timestamp''"
  by code_simp

text \<open>
  C4, amended. Let \<^verbatim>\<open>save_to_s3\<close> put an object, and let parsing undo the
  serialisation. Then the payload was a dict, the key of the object is the key of the
  city for a timestamp \<open>ts\<close>, and the stored text parses to a dict that holds \<open>ts\<close>
  under \<open>timestamp\<close> and, under every other key, what the payload held.
\<close>

theorem archived_document_round_trip:
  assumes "save_to_s3 w d weather_data city tr = (r, weather_data', tr @ [PutObject b key body ct])"
    and "\<forall>doc text. json_dumps w doc = Inr text \<longrightarrow> json_loads text = Some doc"
  shows "\<exists>kvs stored ts. weather_data = JObj kvs \<and> key = file_name city ts \<and>
     json_loads body = Some (JObj stored) \<and>
     map_of stored ''timestamp'' = Some (JStr ts) \<and>
     (\<forall>k. k \<noteq> ''timestamp'' \<longrightarrow> map_of stored k = map_of kvs k)"
proof -
  let ?ts = "strftime (now w tr)"
  obtain kvs where p: "weather_data = JObj kvs"
    and d: "json_dumps w (JObj (AList.update ''timestamp'' (JStr ?ts) kvs)) = Inr body"
    and k: "key = file_name city ?ts"
    using save_to_s3_cases [OF assms(1)] by auto
  have l: "json_loads body = Some (JObj (AList.update ''timestamp'' (JStr ?ts) kvs))"
    using assms(2) d by blast
  have "map_of (AList.update ''timestamp'' (JStr ?ts) kvs) ''timestamp'' = Some (JStr ?ts)"
    by (simp add: update_conv')
  moreover have "map_of (AList.update ''timestamp'' (JStr ?ts) kvs) k = map_of kvs k"
    if "k \<noteq> ''timestamp''" for k
    using that by (simp add: update_conv')
  ultimately show ?thesis using p k l by blast
qed

theorem archived_document_round_trip_witness:
  "save_to_s3 demo_world (settings demo_world) clear_sky ''Seattle'' [] =
     (True, clear_sky_stamped,
      [PutObject (Some ''b'') ''weather-data/Seattle-20240301-090507.json'' clear_sky_stamped
         ''application/json'']) \<and>
   (\<exists>kvs stored ts. clear_sky = JObj kvs \<and>
      ''weather-data/Seattle-20240301-090507.json'' = file_name ''Seattle'' ts \<and>
      Some clear_sky_stamped = Some (JObj stored) \<and>
      map_of stored ''timestamp'' = Some (JStr ts) \<and>
      (\<forall>k. k \<noteq> ''timestamp'' \<longrightarrow> map_of stored k = map_of kvs k))"
proof -
  have inv: "\<forall>doc text. json_dumps demo_world doc = Inr text \<longrightarrow> Some text = Some doc"
    by (simp add: demo_world_def)
  have d: "save_to_s3 demo_world (settings demo_world) clear_sky ''Seattle'' [] =
     (True, clear_sky_stamped,
      [PutObject (Some ''b'') ''weather-data/Seattle-20240301-090507.json'' clear_sky_stamped
         ''application/json''])"
    using demo_save by simp
  from archived_document_round_trip [OF demo_save inv] d show ?thesis by blast
qed

text \<open>
  C10. For a payload that is a non-empty dict, \<^verbatim>\<open>save_to_s3\<close> leaves the caller's
  dict with the capture timestamp under \<open>timestamp\<close>, in place of whatever it held
  there, and with every other key as it was. This holds whatever the serialisation and
  the put do afterwards: when the serialisation succeeds, the text that is put is the
  text of the stamped dict, and the result is the outcome of the put, \<open>False\<close> when it
  fails, with the dict still stamped.
\<close>

theorem save_to_s3_mutates_payload:
  assumes "kvs \<noteq> []" and "ts = strftime (now w tr)"
    and "stamped = AList.update ''timestamp'' (JStr ts) kvs"
  shows "fst (snd (save_to_s3 w d (JObj kvs) city tr)) = JObj stamped \<and>
    map_of stamped ''timestamp'' = Some (JStr ts) \<and>
    (\<forall>k. k \<noteq> ''timestamp'' \<longrightarrow> map_of stamped k = map_of kvs k) \<and>
    (\<forall>body. json_dumps w (JObj stamped) = Inr body \<longrightarrow>
       save_to_s3 w d (JObj kvs) city tr =
         (put_object w tr (bucket_name d) (file_name city ts) body ''application/json'',
          JObj stamped,
          tr @ [PutObject (bucket_name d) (file_name city ts) body ''application/json'']))"
proof -
  have 1: "fst (snd (save_to_s3 w d (JObj kvs) city tr)) = JObj stamped"
    using assms by (simp add: save_to_s3_def Let_def split: sum.splits)
  have 2: "map_of stamped ''timestamp'' = Some (JStr ts)"
    using assms(3) by (simp add: update_conv')
  have 3: "map_of stamped k = map_of kvs k" if "k \<noteq> ''timestamp''" for k
    using assms(3) that by (simp add: update_conv')
  have 4: "save_to_s3 w d (JObj kvs) city tr =
         (put_object w tr (bucket_name d) (file_name city ts) body ''application/json'',
          JObj stamped,
          tr @ [PutObject (bucket_name d) (file_name city ts) body ''application/json''])"
    if "json_dumps w (JObj stamped) = Inr body" for body
    using assms that by (simp add: save_to_s3_def Let_def)
  from 1 2 3 4 show ?thesis by blast
qed

theorem save_to_s3_mutates_payload_witness:
  "getitem dated_payload ''timestamp'' = Inr (JStr ''provider'') \<and>
   save_to_s3 demo_world (settings demo_world) dated_payload ''New York'' [] =
     (False,
      JObj [(''timestamp'', JStr ''20240301-090507''), (''name'', JStr ''Seattle'')],
      [PutObject (Some ''b'') ''weather-data/New York-20240301-090507.json''
         (JObj [(''timestamp'', JStr ''20240301-090507''), (''name'', JStr ''Seattle'')])
         ''application/json''])"
proof -
  let ?kvs = "[(''timestamp'', JStr ''provider''), (''name'', JStr ''Seattle'')]"
  let ?stamped = "AList.update ''timestamp'' (JStr (strftime (now demo_world []))) ?kvs"
  have ne: "?kvs \<noteq> []" by simp
  note t = save_to_s3_mutates_payload
    [OF ne refl refl, of demo_world "settings demo_world" "''New York''"]
  have st: "?stamped = [(''timestamp'', JStr ''20240301-090507''), (''name'', JStr ''Seattle'')]"
    using strftime_march_first by (simp add: demo_now)
  have dumps: "json_dumps demo_world (JObj ?stamped) = Inr (JObj ?stamped)"
    by (simp add: demo_world_def)
  have b: "bucket_name (settings demo_world) = Some ''b''"
    by (simp add: settings_def demo_world_def)
  have f: "file_name ''New York'' (strftime (now demo_world [])) =
      ''weather-data/New York-20240301-090507.json''"
    using strftime_march_first by (simp add: demo_now file_name_def)
  have p: "\<not> put_object demo_world [] (Some ''b'') ''weather-data/New York-20240301-090507.json''
      (JObj ?stamped) ''application/json''"
    by (simp add: demo_world_def)
  from t dumps have "save_to_s3 demo_world (settings demo_world) (JObj ?kvs) ''New York'' [] =
     (put_object demo_world [] (bucket_name (settings demo_world))
        (file_name ''New York'' (strftime (now demo_world []))) (JObj ?stamped) ''application/json'',
      JObj ?stamped,
      [] @ [PutObject (bucket_name (settings demo_world))
        (file_name ''New York'' (strftime (now demo_world []))) (JObj ?stamped) ''application/json''])"
    by blast
  then have "save_to_s3 demo_world (settings demo_world) dated_payload ''New York'' [] =
     (False,
      JObj [(''timestamp'', JStr ''20240301-090507''), (''name'', JStr ''Seattle'')],
      [PutObject (Some ''b'') ''weather-data/New York-20240301-090507.json''
         (JObj [(''timestamp'', JStr ''20240301-090507''), (''name'', JStr ''Seattle'')])
         ''application/json''])"
    using p unfolding b f st dated_payload_def by simp
  moreover have "getitem dated_payload ''timestamp'' = Inr (JStr ''provider'')"
    by (simp add: dated_payload_def)
  ultimately show ?thesis by blast
qed

end
